theory Spec2Isabelle
  imports Main "HOL-Library.Word"
begin

section \<open>The time shim of System.Native (pal_time.c)\<close>

text \<open>
  A shallow embedding of \<^verbatim>\<open>src/Native/Unix/System.Native/pal_time.c\<close>. Every entry
  point forwards to one primitive of the operating system, so the model has three
  ingredients that the C text leaves implicit:
  \<^item> the build configuration (the \<^verbatim>\<open>HAVE_*\<close> macros of \<^verbatim>\<open>pal_config.h\<close> and
    \<^verbatim>\<open>NDEBUG\<close>), which selects the branch of each \<^verbatim>\<open>#if\<close> and decides whether
    \<^verbatim>\<open>assert\<close> is compiled in;
  \<^item> the answers of the operating system, collected in a record;
  \<^item> the ways a call can end without returning: a failed assertion, and undefined
    behaviour (a store through a null pointer, an integer division by zero).
\<close>

subsection \<open>C types\<close>

type_synonym int32_t = "32 word"
type_synonym uint32_t = "32 word"
type_synonym int64_t = "64 word"
type_synonym uint64_t = "64 word"

text \<open>
  \<^verbatim>\<open>int\<close> has 32 bits. \<^verbatim>\<open>long\<close> is as wide as the platform makes it: the structures
  of the C library take the type of their fields as a parameter, which the functions
  below instantiate with \<open>'l word\<close>, for any width \<open>'l\<close>; \<^verbatim>\<open>time_t\<close> and
  \<^verbatim>\<open>suseconds_t\<close> are taken to be typedefs of \<^verbatim>\<open>long\<close>. A signed field is a word
  that is read with \<open>sint\<close>, and a cast from a signed integer type to any integer type
  is \<open>scast\<close> (sign extension to a wider type, truncation to a narrower one), a cast
  from an unsigned type is \<open>ucast\<close>.
\<close>

record 'long timespec =
  tv_sec :: 'long
  tv_nsec :: 'long

record 'long timeval =
  tv_sec :: 'long
  tv_usec :: 'long

record 'long utimbuf =
  actime :: 'long
  modtime :: 'long

text \<open>\<^verbatim>\<open>mach_timebase_info_data_t\<close>: two \<^verbatim>\<open>uint32_t\<close> fields.\<close>

record mach_timebase_info_data_t =
  numer :: uint32_t
  denom :: uint32_t

text \<open>The transfer structures of \<^verbatim>\<open>pal_time.h\<close>: every field is an \<^verbatim>\<open>int64_t\<close>.\<close>

record UTimBuf =
  AcTime :: int64_t
  ModTime :: int64_t

record TimeValPair =
  AcTimeSec :: int64_t
  AcTimeUSec :: int64_t
  ModTimeSec :: int64_t
  ModTimeUSec :: int64_t

text \<open>
  A pointer argument is an \<open>option\<close>: \<open>None\<close> is \<^verbatim>\<open>NULL\<close>, and \<open>Some v\<close> points to a
  cell that holds \<open>v\<close> when the function is entered. What a function stores through an
  output pointer is returned next to its return value. The path is a string that the
  shim hands to the operating system untouched.
\<close>

subsection \<open>Constants\<close>

text \<open>The anonymous enumeration: its constants have type \<^verbatim>\<open>int\<close>.\<close>

definition SecondsToMicroSeconds :: int where
  "SecondsToMicroSeconds = 1000000"

definition SecondsToNanoSeconds :: int where
  "SecondsToNanoSeconds = 1000000000"

text \<open>From the system headers: \<^verbatim>\<open>KERN_SUCCESS\<close> of Mach and \<^verbatim>\<open>EINTR\<close> of errno.h.\<close>

definition KERN_SUCCESS :: int32_t where
  "KERN_SUCCESS = 0"

definition EINTR :: int where
  "EINTR = 4"

subsection \<open>Build configuration and failures\<close>

record build_config =
  HAVE_CLOCK_MONOTONIC :: bool
  HAVE_MACH_ABSOLUTE_TIME :: bool
  HAVE_MACH_TIMEBASE_INFO :: bool
  NDEBUG :: bool

datatype failure = AssertionFailed | UndefinedBehaviour

text \<open>
  \<^verbatim>\<open>assert(c)\<close> aborts the process when \<open>c\<close> is false, unless \<^verbatim>\<open>NDEBUG\<close> removed it.
\<close>

definition assert_fails :: "build_config \<Rightarrow> bool \<Rightarrow> bool" where
  "assert_fails cfg c = (\<not> NDEBUG cfg \<and> \<not> c)"

subsection \<open>The operating system\<close>

text \<open>
  What a system call gives back: its return value and the value of \<^verbatim>\<open>errno\<close> after it.
\<close>

record sysret =
  ret :: int32_t
  errno :: int

text \<open>
  The answers of the operating system. \<^verbatim>\<open>utime\<close> and \<^verbatim>\<open>utimes\<close> are called in a
  loop, so their answer depends on the arguments and on the number of calls made
  before (the last argument). The clock functions are called at most once by an entry
  point: the field is the answer to that call, the return value and the contents of the
  structure the call was given (for a call that fails, whatever the structure held).
\<close>

record 'long os =
  utime :: "string \<Rightarrow> 'long utimbuf \<Rightarrow> nat \<Rightarrow> sysret"
  utimes :: "string \<Rightarrow> 'long timeval \<times> 'long timeval \<Rightarrow> nat \<Rightarrow> sysret"
  clock_gettime_MONOTONIC :: "int32_t \<times> 'long timespec"
  mach_timebase_info :: "int32_t \<times> mach_timebase_info_data_t"
  mach_absolute_time :: uint64_t
  gettimeofday :: "int32_t \<times> 'long timeval"

text \<open>
  Modelled from the spec: \<^verbatim>\<open>CheckInterrupted\<close> of \<^verbatim>\<open>pal_utilities.h\<close>, which is not
  among the sources. The spec says of the loop built on it that it "loops solely on the
  OS-level interrupted by signal condition": the call failed (a negative return value)
  and \<^verbatim>\<open>errno\<close> is \<^verbatim>\<open>EINTR\<close>.
\<close>

definition CheckInterrupted :: "int32_t \<Rightarrow> int \<Rightarrow> bool" where
  "CheckInterrupted result err = (sint result < 0 \<and> err = EINTR)"

subsection \<open>Setting file times\<close>

definition ConvertUTimBuf :: "UTimBuf \<Rightarrow> ('l::len) word utimbuf" where
  "ConvertUTimBuf pal = \<lparr>actime = scast (AcTime pal), modtime = scast (ModTime pal)\<rparr>"

definition ConvertTimeValPair :: "TimeValPair \<Rightarrow> ('l::len) word timeval \<times> 'l word timeval" where
  "ConvertTimeValPair pal =
     (\<lparr>timeval.tv_sec = scast (AcTimeSec pal), tv_usec = scast (AcTimeUSec pal)\<rparr>,
      \<lparr>timeval.tv_sec = scast (ModTimeSec pal), tv_usec = scast (ModTimeUSec pal)\<rparr>)"

text \<open>
  \<^verbatim>\<open>while (CheckInterrupted(result = utime(path, &temp)));\<close> The loop may run for
  ever, so it is a partial function: \<open>None\<close> is a loop that never ends. \<open>k\<close> counts
  the calls of \<^verbatim>\<open>utime\<close> made so far; the loop returns \<^verbatim>\<open>result\<close> and the count.
\<close>

partial_function (option) UTime_loop ::
  "('l::len) word os \<Rightarrow> string \<Rightarrow> 'l word utimbuf \<Rightarrow> nat \<Rightarrow> (int32_t \<times> nat) option" where
  "UTime_loop sys path temp k =
     (if CheckInterrupted (ret (utime sys path temp k)) (errno (utime sys path temp k))
      then UTime_loop sys path temp (Suc k)
      else Some (ret (utime sys path temp k), Suc k))"

definition SystemNative_UTime ::
  "build_config \<Rightarrow> ('l::len) word os \<Rightarrow> string \<Rightarrow> UTimBuf option
     \<Rightarrow> (failure + int32_t \<times> nat) option" where
  "SystemNative_UTime cfg sys path ptimes =
     (if assert_fails cfg (ptimes \<noteq> None) then Some (Inl AssertionFailed)
      else case ptimes of
        None \<Rightarrow> Some (Inl UndefinedBehaviour)
      | Some pal \<Rightarrow> map_option Inr (UTime_loop sys path (ConvertUTimBuf pal) 0))"

partial_function (option) UTimes_loop ::
  "('l::len) word os \<Rightarrow> string \<Rightarrow> 'l word timeval \<times> 'l word timeval \<Rightarrow> nat
     \<Rightarrow> (int32_t \<times> nat) option" where
  "UTimes_loop sys path temp k =
     (if CheckInterrupted (ret (utimes sys path temp k)) (errno (utimes sys path temp k))
      then UTimes_loop sys path temp (Suc k)
      else Some (ret (utimes sys path temp k), Suc k))"

definition SystemNative_UTimes ::
  "build_config \<Rightarrow> ('l::len) word os \<Rightarrow> string \<Rightarrow> TimeValPair option
     \<Rightarrow> (failure + int32_t \<times> nat) option" where
  "SystemNative_UTimes cfg sys path ptimes =
     (if assert_fails cfg (ptimes \<noteq> None) then Some (Inl AssertionFailed)
      else case ptimes of
        None \<Rightarrow> Some (Inl UndefinedBehaviour)
      | Some pal \<Rightarrow> map_option Inr (UTimes_loop sys path (ConvertTimeValPair pal) 0))"

subsection \<open>Clocks\<close>

text \<open>
  The result of a clock function is a failure or the pair of the return value and the
  value stored through the output pointer. The three branches of \<^verbatim>\<open>#if\<close> are tried
  in the order of the source. In the second branch the quotient is an unsigned 64-bit
  division, which is undefined for a zero divisor.
\<close>

definition SystemNative_GetTimestampResolution ::
  "build_config \<Rightarrow> ('l::len) word os \<Rightarrow> uint64_t option \<Rightarrow> failure + int32_t \<times> uint64_t" where
  "SystemNative_GetTimestampResolution cfg sys resolution =
     (if assert_fails cfg (resolution \<noteq> None) then Inl AssertionFailed
      else if resolution = None then Inl UndefinedBehaviour
      else if HAVE_CLOCK_MONOTONIC cfg then
        (if fst (clock_gettime_MONOTONIC sys) = 0
         then Inr (1, word_of_int SecondsToNanoSeconds)
         else Inr (0, 0))
      else if HAVE_MACH_ABSOLUTE_TIME cfg then
        (if fst (mach_timebase_info sys) = KERN_SUCCESS
         then (if (ucast (numer (snd (mach_timebase_info sys))) :: uint64_t) = 0
               then Inl UndefinedBehaviour
               else Inr (1, word_of_int SecondsToNanoSeconds *
                            (ucast (denom (snd (mach_timebase_info sys))) div
                             ucast (numer (snd (mach_timebase_info sys))))))
         else Inr (0, 0))
      else Inr (1, word_of_int SecondsToMicroSeconds))"

text \<open>
  In the first branch the result of \<^verbatim>\<open>clock_gettime\<close> is only asserted: without the
  assertion the timestamp is computed from the structure whatever the call returned.
\<close>

definition SystemNative_GetTimestamp ::
  "build_config \<Rightarrow> ('l::len) word os \<Rightarrow> uint64_t option \<Rightarrow> failure + int32_t \<times> uint64_t" where
  "SystemNative_GetTimestamp cfg sys timestamp =
     (if assert_fails cfg (timestamp \<noteq> None) then Inl AssertionFailed
      else if timestamp = None then Inl UndefinedBehaviour
      else if HAVE_CLOCK_MONOTONIC cfg then
        (if assert_fails cfg (fst (clock_gettime_MONOTONIC sys) = 0) then Inl AssertionFailed
         else Inr (1, scast (timespec.tv_sec (snd (clock_gettime_MONOTONIC sys))) *
                        word_of_int SecondsToNanoSeconds +
                      scast (tv_nsec (snd (clock_gettime_MONOTONIC sys)))))
      else if HAVE_MACH_ABSOLUTE_TIME cfg then Inr (1, mach_absolute_time sys)
      else if fst (gettimeofday sys) = 0
        then Inr (1, scast (timeval.tv_sec (snd (gettimeofday sys))) *
                       word_of_int SecondsToMicroSeconds +
                     scast (tv_usec (snd (gettimeofday sys))))
        else Inr (0, 0))"

definition SystemNative_GetAbsoluteTime ::
  "build_config \<Rightarrow> ('l::len) word os \<Rightarrow> uint64_t option \<Rightarrow> failure + int32_t \<times> uint64_t" where
  "SystemNative_GetAbsoluteTime cfg sys timestamp =
     (if assert_fails cfg (timestamp \<noteq> None) then Inl AssertionFailed
      else if timestamp = None then Inl UndefinedBehaviour
      else if HAVE_MACH_ABSOLUTE_TIME cfg then Inr (1, mach_absolute_time sys)
      else Inr (0, 0))"

text \<open>
  \<^verbatim>\<open>SystemNative_GetTimebaseInfo\<close> asserts nothing about its pointers, so a null one is
  undefined behaviour at the first store. The result carries the return value and the
  values stored through \<^verbatim>\<open>numer\<close> and through \<^verbatim>\<open>denom\<close>.
\<close>

definition store_ratio ::
  "uint32_t option \<Rightarrow> uint32_t option \<Rightarrow> uint32_t \<Rightarrow> uint32_t
     \<Rightarrow> failure + int32_t \<times> uint32_t \<times> uint32_t" where
  "store_ratio pnumer pdenom n d =
     (if pnumer = None \<or> pdenom = None then Inl UndefinedBehaviour else Inr (1, n, d))"

definition SystemNative_GetTimebaseInfo ::
  "build_config \<Rightarrow> ('l::len) word os \<Rightarrow> uint32_t option \<Rightarrow> uint32_t option
     \<Rightarrow> failure + int32_t \<times> uint32_t \<times> uint32_t" where
  "SystemNative_GetTimebaseInfo cfg sys pnumer pdenom =
     (if HAVE_MACH_TIMEBASE_INFO cfg then
        (if assert_fails cfg (fst (mach_timebase_info sys) = KERN_SUCCESS)
         then Inl AssertionFailed
         else if fst (mach_timebase_info sys) = KERN_SUCCESS
         then store_ratio pnumer pdenom (numer (snd (mach_timebase_info sys)))
                (denom (snd (mach_timebase_info sys)))
         else store_ratio pnumer pdenom 1 1)
      else store_ratio pnumer pdenom 1 1)"

subsection \<open>Sample builds and a sample operating system\<close>

text \<open>
  Three builds with assertions, one for each branch of the clock selection, and an
  operating system whose every call succeeds: the concrete inputs of the examples below.
\<close>

definition clock_monotonic_build :: build_config where
  "clock_monotonic_build =
     \<lparr>HAVE_CLOCK_MONOTONIC = True, HAVE_MACH_ABSOLUTE_TIME = False,
      HAVE_MACH_TIMEBASE_INFO = False, NDEBUG = False\<rparr>"

definition mach_build :: build_config where
  "mach_build =
     \<lparr>HAVE_CLOCK_MONOTONIC = False, HAVE_MACH_ABSOLUTE_TIME = True,
      HAVE_MACH_TIMEBASE_INFO = True, NDEBUG = False\<rparr>"

definition gettimeofday_build :: build_config where
  "gettimeofday_build =
     \<lparr>HAVE_CLOCK_MONOTONIC = False, HAVE_MACH_ABSOLUTE_TIME = False,
      HAVE_MACH_TIMEBASE_INFO = False, NDEBUG = False\<rparr>"

definition quiet_os :: "64 word os" where
  "quiet_os =
     \<lparr>utime = (\<lambda>path temp k. \<lparr>ret = 0, errno = 0\<rparr>),
      utimes = (\<lambda>path temp k. \<lparr>ret = 0, errno = 0\<rparr>),
      clock_gettime_MONOTONIC = (0, \<lparr>timespec.tv_sec = 12, tv_nsec = 345\<rparr>),
      mach_timebase_info = (KERN_SUCCESS, \<lparr>numer = 125, denom = 3\<rparr>),
      mach_absolute_time = 1000,
      gettimeofday = (0, \<lparr>timeval.tv_sec = 12, tv_usec = 345\<rparr>)\<rparr>"

text \<open>The answer of a call that a signal interrupted, and of one that failed otherwise.\<close>

definition eintr :: sysret where
  "eintr = \<lparr>ret = - 1, errno = EINTR\<rparr>"

definition enoent :: sysret where
  "enoent = \<lparr>ret = - 1, errno = 2\<rparr>"

abbreviation interrupted :: "sysret \<Rightarrow> bool" where
  "interrupted r \<equiv> CheckInterrupted (ret r) (errno r)"

section \<open>Properties\<close>

subsection \<open>Arithmetic of the casts\<close>
lemma uint_scast_sum:
  "uint (scast (a :: 'l::len word) * (word_of_int c :: 64 word) + scast (b :: 'l word)) =
     (sint a * c + sint b) mod 2 ^ 64"
proof -
  have "scast a * (word_of_int c :: 64 word) + scast b = word_of_int (sint a * c + sint b)"
    by (simp only: scast_eq of_int_add of_int_mult)
  then show ?thesis
    by (simp only: uint_word_of_int) simp
qed

lemma unat_ucast_32_64: "unat (ucast (w :: uint32_t) :: uint64_t) = unat w"
proof -
  have "unat w < 2 ^ 32"
    using unsigned_less [of w] by simp
  then have "unat w < 2 ^ 64"
    by simp
  then show ?thesis
    by (simp add: unsigned_ucast_eq take_bit_nat_eq_self)
qed

lemma ucast_32_64_eq_0: "(ucast (w :: uint32_t) :: uint64_t) = 0 \<longleftrightarrow> w = 0"
proof -
  have "(ucast w :: uint64_t) = 0 \<longleftrightarrow> unat (ucast w :: uint64_t) = 0"
    by (simp add: unsigned_eq_0_iff)
  also have "\<dots> \<longleftrightarrow> w = 0"
    by (simp add: unat_ucast_32_64 unsigned_eq_0_iff)
  finally show ?thesis .
qed

lemma unat_resolution:
  fixes n d :: uint32_t
  assumes "n \<noteq> 0"
  shows "unat ((1000000000 :: uint64_t) * (ucast d div ucast n)) = 1000000000 * (unat d div unat n)"
proof -
  have q: "unat ((ucast d :: uint64_t) div ucast n) = unat d div unat n"
    by (simp add: unat_div unat_ucast_32_64)
  have "unat d < 2 ^ 32"
    using unsigned_less [of d] by simp
  then have "unat d < 4294967296"
    by simp
  moreover have "unat d div unat n \<le> unat d"
    by (rule div_le_dividend)
  ultimately have "1000000000 * (unat d div unat n) < (18446744073709551616 :: nat)"
    by linarith
  then have "unat (1000000000 :: uint64_t) * unat ((ucast d :: uint64_t) div ucast n) < 2 ^ LENGTH(64)"
    by (simp add: q)
  then have "unat ((1000000000 :: uint64_t) * (ucast d div ucast n)) =
               unat (1000000000 :: uint64_t) * unat ((ucast d :: uint64_t) div ucast n)"
    by (simp only: unat_mult_lem [THEN iffD1])
  then show ?thesis
    by (simp add: q)
qed

subsection \<open>The retry loops\<close>

lemma UTime_loop_returns:
  assumes "\<forall>i<n. interrupted (utime sys path temp (k + i))"
    and "\<not> interrupted (utime sys path temp (k + n))"
  shows "UTime_loop sys path temp k = Some (ret (utime sys path temp (k + n)), Suc (k + n))"
  using assms
proof (induction n arbitrary: k)
  case 0
  then show ?case
    by (subst UTime_loop.simps) simp
next
  case (Suc n)
  have first: "interrupted (utime sys path temp k)"
    using Suc.prems(1) [rule_format, of 0] by simp
  have rest: "\<forall>i<n. interrupted (utime sys path temp (Suc k + i))"
    using Suc.prems(1) by (metis Suc_less_eq add_Suc_right add_Suc)
  have "UTime_loop sys path temp (Suc k) =
          Some (ret (utime sys path temp (Suc k + n)), Suc (Suc k + n))"
    using rest Suc.prems(2) by (intro Suc.IH) simp_all
  then show ?case
    using first by (subst UTime_loop.simps) simp
qed

lemma UTime_loop_stops:
  assumes "UTime_loop sys path temp k = Some y"
  shows "\<exists>m\<ge>k. \<not> interrupted (utime sys path temp m)"
proof (rule UTime_loop.raw_induct
    [where P = "\<lambda>sys path temp k y. \<exists>m\<ge>k. \<not> interrupted (utime sys path temp m)", OF _ assms])
  fix loop :: "'a word os \<Rightarrow> string \<Rightarrow> 'a word utimbuf \<Rightarrow> nat \<Rightarrow> (int32_t \<times> nat) option"
    and sys path temp k y
  assume IH: "\<And>sys path temp k y. loop sys path temp k = Some y \<Longrightarrow>
                \<exists>m\<ge>k. \<not> interrupted (utime sys path temp m)"
    and step: "(if interrupted (utime sys path temp k) then loop sys path temp (Suc k)
                else Some (ret (utime sys path temp k), Suc k)) = Some y"
  show "\<exists>m\<ge>k. \<not> interrupted (utime sys path temp m)"
  proof (cases "interrupted (utime sys path temp k)")
    case True
    with step have "loop sys path temp (Suc k) = Some y"
      by simp
    from IH [OF this] obtain m where "Suc k \<le> m" and "\<not> interrupted (utime sys path temp m)"
      by blast
    then show ?thesis
      by (intro exI [of _ m]) simp
  next
    case False
    then show ?thesis
      by (intro exI [of _ k]) simp
  qed
qed

lemma UTime_loop_diverges:
  assumes "\<forall>i. interrupted (utime sys path temp i)"
  shows "UTime_loop sys path temp k = None"
proof (rule ccontr)
  assume "UTime_loop sys path temp k \<noteq> None"
  then obtain y where "UTime_loop sys path temp k = Some y" by auto
  from UTime_loop_stops [OF this] assms show False by auto
qed

lemma UTimes_loop_returns:
  assumes "\<forall>i<n. interrupted (utimes sys path temp (k + i))"
    and "\<not> interrupted (utimes sys path temp (k + n))"
  shows "UTimes_loop sys path temp k = Some (ret (utimes sys path temp (k + n)), Suc (k + n))"
  using assms
proof (induction n arbitrary: k)
  case 0
  then show ?case
    by (subst UTimes_loop.simps) simp
next
  case (Suc n)
  have first: "interrupted (utimes sys path temp k)"
    using Suc.prems(1) [rule_format, of 0] by simp
  have rest: "\<forall>i<n. interrupted (utimes sys path temp (Suc k + i))"
    using Suc.prems(1) by (metis Suc_less_eq add_Suc_right add_Suc)
  have "UTimes_loop sys path temp (Suc k) =
          Some (ret (utimes sys path temp (Suc k + n)), Suc (Suc k + n))"
    using rest Suc.prems(2) by (intro Suc.IH) simp_all
  then show ?case
    using first by (subst UTimes_loop.simps) simp
qed

lemma UTimes_loop_stops:
  assumes "UTimes_loop sys path temp k = Some y"
  shows "\<exists>m\<ge>k. \<not> interrupted (utimes sys path temp m)"
proof (rule UTimes_loop.raw_induct
    [where P = "\<lambda>sys path temp k y. \<exists>m\<ge>k. \<not> interrupted (utimes sys path temp m)", OF _ assms])
  fix loop :: "'a word os \<Rightarrow> string \<Rightarrow> 'a word timeval \<times> 'a word timeval \<Rightarrow> nat \<Rightarrow> (int32_t \<times> nat) option"
    and sys path temp k y
  assume IH: "\<And>sys path temp k y. loop sys path temp k = Some y \<Longrightarrow>
                \<exists>m\<ge>k. \<not> interrupted (utimes sys path temp m)"
    and step: "(if interrupted (utimes sys path temp k) then loop sys path temp (Suc k)
                else Some (ret (utimes sys path temp k), Suc k)) = Some y"
  show "\<exists>m\<ge>k. \<not> interrupted (utimes sys path temp m)"
  proof (cases "interrupted (utimes sys path temp k)")
    case True
    with step have "loop sys path temp (Suc k) = Some y"
      by simp
    from IH [OF this] obtain m where "Suc k \<le> m" and "\<not> interrupted (utimes sys path temp m)"
      by blast
    then show ?thesis
      by (intro exI [of _ m]) simp
  next
    case False
    then show ?thesis
      by (intro exI [of _ k]) simp
  qed
qed

lemma UTimes_loop_diverges:
  assumes "\<forall>i. interrupted (utimes sys path temp i)"
  shows "UTimes_loop sys path temp k = None"
proof (rule ccontr)
  assume "UTimes_loop sys path temp k \<noteq> None"
  then obtain y where "UTimes_loop sys path temp k = Some y" by auto
  from UTimes_loop_stops [OF this] assms show False by auto
qed

subsection \<open>Setting file times\<close>

lemma UTime_returns:
  assumes "\<forall>i<n. interrupted (utime sys path (ConvertUTimBuf t) i)"
    and "\<not> interrupted (utime sys path (ConvertUTimBuf t) n)"
  shows "SystemNative_UTime cfg sys path (Some t) =
           Some (Inr (ret (utime sys path (ConvertUTimBuf t) n), Suc n))"
  using UTime_loop_returns [of n sys path "ConvertUTimBuf t" 0] assms
  by (simp add: SystemNative_UTime_def assert_fails_def)

lemma UTime_diverges:
  assumes "\<forall>i. interrupted (utime sys path (ConvertUTimBuf t) i)"
  shows "SystemNative_UTime cfg sys path (Some t) = None"
  using UTime_loop_diverges [OF assms, of 0]
  by (simp add: SystemNative_UTime_def assert_fails_def)

lemma UTimes_returns:
  assumes "\<forall>i<n. interrupted (utimes sys path (ConvertTimeValPair tv) i)"
    and "\<not> interrupted (utimes sys path (ConvertTimeValPair tv) n)"
  shows "SystemNative_UTimes cfg sys path (Some tv) =
           Some (Inr (ret (utimes sys path (ConvertTimeValPair tv) n), Suc n))"
  using UTimes_loop_returns [of n sys path "ConvertTimeValPair tv" 0] assms
  by (simp add: SystemNative_UTimes_def assert_fails_def)

lemma UTimes_diverges:
  assumes "\<forall>i. interrupted (utimes sys path (ConvertTimeValPair tv) i)"
  shows "SystemNative_UTimes cfg sys path (Some tv) = None"
  using UTimes_loop_diverges [OF assms, of 0]
  by (simp add: SystemNative_UTimes_def assert_fails_def)

lemma UTime_UTimes_same:
  assumes same: "\<forall>i. utime sys path (ConvertUTimBuf t) i = utimes sys' path' (ConvertTimeValPair tv) i"
  shows "SystemNative_UTime cfg sys path (Some t) = SystemNative_UTimes cfg' sys' path' (Some tv)"
proof (cases "\<exists>n. \<not> interrupted (utime sys path (ConvertUTimBuf t) n)")
  case True
  then obtain n where stop: "\<not> interrupted (utime sys path (ConvertUTimBuf t) n)"
    and before: "\<forall>i<n. interrupted (utime sys path (ConvertUTimBuf t) i)"
    using exists_least_iff [of "\<lambda>n. \<not> interrupted (utime sys path (ConvertUTimBuf t) n)"]
    by auto
  have "SystemNative_UTime cfg sys path (Some t) =
          Some (Inr (ret (utime sys path (ConvertUTimBuf t) n), Suc n))"
    using before stop by (rule UTime_returns)
  moreover have "SystemNative_UTimes cfg' sys' path' (Some tv) =
          Some (Inr (ret (utimes sys' path' (ConvertTimeValPair tv) n), Suc n))"
    using before stop same by (intro UTimes_returns) simp_all
  ultimately show ?thesis
    using same by simp
next
  case False
  then have all: "\<forall>i. interrupted (utime sys path (ConvertUTimBuf t) i)"
    by simp
  then have "\<forall>i. interrupted (utimes sys' path' (ConvertTimeValPair tv) i)"
    using same by simp
  then show ?thesis
    using all by (simp add: UTime_diverges UTimes_diverges)
qed

text \<open>
  C3. For every path and every non-null structure, \<^verbatim>\<open>SystemNative_UTime\<close> and
  \<^verbatim>\<open>SystemNative_UTimes\<close> call the operating system again exactly as long as a call is
  interrupted by a signal. After \<open>n\<close> interrupted calls, for any \<open>n\<close>, the answer of
  call \<open>n\<close> is returned if it is not an interruption, be it a success or any other
  failure, and \<open>n + 1\<close> calls have been made, with nothing between them; when every
  call is interrupted the function never returns. Both functions do the same on the
  same answers.
\<close>

theorem file_times_retry:
  "((\<forall>i<n. interrupted (utime sys path (ConvertUTimBuf t) i)) \<and>
    \<not> interrupted (utime sys path (ConvertUTimBuf t) n) \<longrightarrow>
      SystemNative_UTime cfg sys path (Some t) =
        Some (Inr (ret (utime sys path (ConvertUTimBuf t) n), Suc n))) \<and>
   ((\<forall>i. interrupted (utime sys path (ConvertUTimBuf t) i)) \<longrightarrow>
      SystemNative_UTime cfg sys path (Some t) = None) \<and>
   ((\<forall>i<n. interrupted (utimes sys path (ConvertTimeValPair tv) i)) \<and>
    \<not> interrupted (utimes sys path (ConvertTimeValPair tv) n) \<longrightarrow>
      SystemNative_UTimes cfg sys path (Some tv) =
        Some (Inr (ret (utimes sys path (ConvertTimeValPair tv) n), Suc n))) \<and>
   ((\<forall>i. interrupted (utimes sys path (ConvertTimeValPair tv) i)) \<longrightarrow>
      SystemNative_UTimes cfg sys path (Some tv) = None) \<and>
   ((\<forall>i. utime sys path (ConvertUTimBuf t) i = utimes sys path (ConvertTimeValPair tv) i) \<longrightarrow>
      SystemNative_UTime cfg sys path (Some t) = SystemNative_UTimes cfg sys path (Some tv))"
  using UTime_returns [of n sys path t cfg] UTime_diverges [of sys path t cfg]
    UTimes_returns [of n sys path tv cfg] UTimes_diverges [of sys path tv cfg]
    UTime_UTimes_same [of sys path t sys path tv cfg cfg]
  by blast

theorem file_times_retry_witness:
  "SystemNative_UTime clock_monotonic_build
     (quiet_os\<lparr>utime := (\<lambda>path temp k. if k < 2 then eintr else enoent)\<rparr>)
     ''/tmp/x'' (Some \<lparr>AcTime = 1000000000, ModTime = 1000000000\<rparr>) = Some (Inr (- 1, 3)) \<and>
   SystemNative_UTime clock_monotonic_build
     (quiet_os\<lparr>utime := (\<lambda>path temp k. eintr)\<rparr>)
     ''/tmp/x'' (Some \<lparr>AcTime = 1000000000, ModTime = 1000000000\<rparr>) = None \<and>
   SystemNative_UTimes clock_monotonic_build
     (quiet_os\<lparr>utimes := (\<lambda>path temp k. if k < 2 then eintr else enoent)\<rparr>)
     ''/tmp/x'' (Some \<lparr>AcTimeSec = 1000000000, AcTimeUSec = 5, ModTimeSec = 1000000000,
                       ModTimeUSec = 5\<rparr>) = Some (Inr (- 1, 3)) \<and>
   SystemNative_UTimes clock_monotonic_build
     (quiet_os\<lparr>utimes := (\<lambda>path temp k. eintr)\<rparr>)
     ''/tmp/x'' (Some \<lparr>AcTimeSec = 1000000000, AcTimeUSec = 5, ModTimeSec = 1000000000,
                       ModTimeUSec = 5\<rparr>) = None \<and>
   SystemNative_UTime clock_monotonic_build quiet_os
     ''/tmp/x'' (Some \<lparr>AcTime = 1000000000, ModTime = 1000000000\<rparr>) =
   SystemNative_UTimes clock_monotonic_build quiet_os
     ''/tmp/x'' (Some \<lparr>AcTimeSec = 1000000000, AcTimeUSec = 5, ModTimeSec = 1000000000,
                       ModTimeUSec = 5\<rparr>)"
  using
    file_times_retry [where n = 2 and cfg = clock_monotonic_build and path = "''/tmp/x''"
      and sys = "quiet_os\<lparr>utime := (\<lambda>path temp k. if k < 2 then eintr else enoent)\<rparr>"
      and t = "\<lparr>AcTime = 1000000000, ModTime = 1000000000\<rparr>", THEN conjunct1]
    file_times_retry [where cfg = clock_monotonic_build and path = "''/tmp/x''"
      and sys = "quiet_os\<lparr>utime := (\<lambda>path temp k. eintr)\<rparr>"
      and t = "\<lparr>AcTime = 1000000000, ModTime = 1000000000\<rparr>", THEN conjunct2, THEN conjunct1]
    file_times_retry [where n = 2 and cfg = clock_monotonic_build and path = "''/tmp/x''"
      and sys = "quiet_os\<lparr>utimes := (\<lambda>path temp k. if k < 2 then eintr else enoent)\<rparr>"
      and tv = "\<lparr>AcTimeSec = 1000000000, AcTimeUSec = 5, ModTimeSec = 1000000000,
                 ModTimeUSec = 5\<rparr>", THEN conjunct2, THEN conjunct2, THEN conjunct1]
    file_times_retry [where cfg = clock_monotonic_build and path = "''/tmp/x''"
      and sys = "quiet_os\<lparr>utimes := (\<lambda>path temp k. eintr)\<rparr>"
      and tv = "\<lparr>AcTimeSec = 1000000000, AcTimeUSec = 5, ModTimeSec = 1000000000,
                 ModTimeUSec = 5\<rparr>",
      THEN conjunct2, THEN conjunct2, THEN conjunct2, THEN conjunct1]
    file_times_retry [where cfg = clock_monotonic_build and path = "''/tmp/x''"
      and sys = quiet_os
      and t = "\<lparr>AcTime = 1000000000, ModTime = 1000000000\<rparr>"
      and tv = "\<lparr>AcTimeSec = 1000000000, AcTimeUSec = 5, ModTimeSec = 1000000000,
                 ModTimeUSec = 5\<rparr>",
      THEN conjunct2, THEN conjunct2, THEN conjunct2, THEN conjunct2]
  by (simp add: quiet_os_def eintr_def enoent_def CheckInterrupted_def EINTR_def)

subsection \<open>Clock resolution\<close>

text \<open>
  C4. In a build with \<^verbatim>\<open>HAVE_CLOCK_MONOTONIC\<close>, \<^verbatim>\<open>SystemNative_GetTimestampResolution\<close>
  probes \<^verbatim>\<open>clock_gettime(CLOCK_MONOTONIC)\<close>: when the probe returns 0 it stores the
  resolution \<open>10\<^sup>9\<close> and returns 1, when the probe returns anything else it stores 0 and
  returns 0.
\<close>

theorem GetTimestampResolution_clock_monotonic:
  assumes "HAVE_CLOCK_MONOTONIC cfg"
  shows "SystemNative_GetTimestampResolution cfg sys (Some old) =
           (if fst (clock_gettime_MONOTONIC sys) = 0 then Inr (1, 10 ^ 9) else Inr (0, 0))"
  using assms
  by (simp add: SystemNative_GetTimestampResolution_def assert_fails_def SecondsToNanoSeconds_def)

theorem GetTimestampResolution_clock_monotonic_witness:
  "HAVE_CLOCK_MONOTONIC clock_monotonic_build \<and>
   SystemNative_GetTimestampResolution clock_monotonic_build quiet_os (Some 7) =
     Inr (1, 1000000000) \<and>
   SystemNative_GetTimestampResolution clock_monotonic_build
     (quiet_os\<lparr>clock_gettime_MONOTONIC := (- 1, \<lparr>timespec.tv_sec = 0, tv_nsec = 0\<rparr>)\<rparr>)
     (Some 7) = Inr (0, 0)"
  using GetTimestampResolution_clock_monotonic [of clock_monotonic_build quiet_os 7]
    GetTimestampResolution_clock_monotonic [of clock_monotonic_build
      "quiet_os\<lparr>clock_gettime_MONOTONIC := (- 1, \<lparr>timespec.tv_sec = 0, tv_nsec = 0\<rparr>)\<rparr>" 7]
  by (simp add: clock_monotonic_build_def quiet_os_def)

text \<open>
  C1, as amended. In a build without \<^verbatim>\<open>HAVE_CLOCK_MONOTONIC\<close> and with
  \<^verbatim>\<open>HAVE_MACH_ABSOLUTE_TIME\<close>: when \<^verbatim>\<open>mach_timebase_info\<close> succeeds and reports a
  numerator other than zero, the function returns 1 and stores \<open>10\<^sup>9\<close> times the integer
  quotient of the denominator by the numerator (the product does not wrap around: the
  value read as a natural number is the product of natural numbers); when the probe
  fails, it stores 0 and returns 0.
\<close>

theorem GetTimestampResolution_timebase:
  assumes "\<not> HAVE_CLOCK_MONOTONIC cfg" and "HAVE_MACH_ABSOLUTE_TIME cfg"
  shows "(fst (mach_timebase_info sys) = KERN_SUCCESS \<and>
          numer (snd (mach_timebase_info sys)) \<noteq> 0 \<longrightarrow>
            (\<exists>r. SystemNative_GetTimestampResolution cfg sys (Some old) = Inr (1, r) \<and>
                 r = 10 ^ 9 * (ucast (denom (snd (mach_timebase_info sys))) div
                               ucast (numer (snd (mach_timebase_info sys)))) \<and>
                 unat r = 10 ^ 9 * (unat (denom (snd (mach_timebase_info sys))) div
                                    unat (numer (snd (mach_timebase_info sys)))))) \<and>
         (fst (mach_timebase_info sys) \<noteq> KERN_SUCCESS \<longrightarrow>
            SystemNative_GetTimestampResolution cfg sys (Some old) = Inr (0, 0))"
  using assms
    unat_resolution [of "numer (snd (mach_timebase_info sys))" "denom (snd (mach_timebase_info sys))"]
  by (simp add: SystemNative_GetTimestampResolution_def assert_fails_def SecondsToNanoSeconds_def
      ucast_32_64_eq_0)

theorem GetTimestampResolution_timebase_witness:
  "\<not> HAVE_CLOCK_MONOTONIC mach_build \<and> HAVE_MACH_ABSOLUTE_TIME mach_build \<and>
   SystemNative_GetTimestampResolution mach_build
     (quiet_os\<lparr>mach_timebase_info := (KERN_SUCCESS, \<lparr>numer = 2, denom = 7\<rparr>)\<rparr>) (Some 7) =
     Inr (1, 3000000000) \<and>
   SystemNative_GetTimestampResolution mach_build
     (quiet_os\<lparr>mach_timebase_info := (5, \<lparr>numer = 2, denom = 7\<rparr>)\<rparr>) (Some 7) = Inr (0, 0)"
  using
    GetTimestampResolution_timebase [of mach_build
      "quiet_os\<lparr>mach_timebase_info := (KERN_SUCCESS, \<lparr>numer = 2, denom = 7\<rparr>)\<rparr>" 7]
    GetTimestampResolution_timebase [of mach_build
      "quiet_os\<lparr>mach_timebase_info := (5, \<lparr>numer = 2, denom = 7\<rparr>)\<rparr>" 7]
  by (simp add: mach_build_def quiet_os_def KERN_SUCCESS_def)

text \<open>
  C1 as stated fails where the probe succeeds with numerator 0: there is no quotient,
  the division is undefined behaviour, and the function neither stores a resolution nor
  returns 1.
\<close>

theorem GetTimestampResolution_timebase_zero_numerator:
  "SystemNative_GetTimestampResolution mach_build
     (quiet_os\<lparr>mach_timebase_info := (KERN_SUCCESS, \<lparr>numer = 0, denom = 1\<rparr>)\<rparr>) (Some 7) =
     Inl UndefinedBehaviour"
  by (simp add: SystemNative_GetTimestampResolution_def assert_fails_def mach_build_def
      quiet_os_def)

text \<open>
  C5. In a build with neither \<^verbatim>\<open>HAVE_CLOCK_MONOTONIC\<close> nor
  \<^verbatim>\<open>HAVE_MACH_ABSOLUTE_TIME\<close> the function stores \<open>10\<^sup>6\<close> and returns 1, whatever the
  operating system answers: the branch has no failure.
\<close>

theorem GetTimestampResolution_fallback:
  assumes "\<not> HAVE_CLOCK_MONOTONIC cfg" and "\<not> HAVE_MACH_ABSOLUTE_TIME cfg"
  shows "SystemNative_GetTimestampResolution cfg sys (Some old) = Inr (1, 10 ^ 6)"
  using assms
  by (simp add: SystemNative_GetTimestampResolution_def assert_fails_def SecondsToMicroSeconds_def)

theorem GetTimestampResolution_fallback_witness:
  "\<not> HAVE_CLOCK_MONOTONIC gettimeofday_build \<and> \<not> HAVE_MACH_ABSOLUTE_TIME gettimeofday_build \<and>
   SystemNative_GetTimestampResolution gettimeofday_build quiet_os (Some 7) = Inr (1, 1000000)"
  using GetTimestampResolution_fallback [of gettimeofday_build quiet_os 7]
  by (simp add: gettimeofday_build_def)

text \<open>
  C10. In the \<^verbatim>\<open>mach_timebase_info\<close> branch, when the probe succeeds with a numerator
  strictly greater than a nonzero denominator, the quotient of the unsigned division is
  0, so the function stores the resolution 0 and still returns 1: a zero resolution
  does not imply the failure status.
\<close>

theorem GetTimestampResolution_zero_with_success:
  assumes "\<not> HAVE_CLOCK_MONOTONIC cfg" and "HAVE_MACH_ABSOLUTE_TIME cfg"
    and "fst (mach_timebase_info sys) = KERN_SUCCESS"
    and "denom (snd (mach_timebase_info sys)) \<noteq> 0"
    and "denom (snd (mach_timebase_info sys)) < numer (snd (mach_timebase_info sys))"
  shows "SystemNative_GetTimestampResolution cfg sys (Some old) = Inr (1, 0)"
proof -
  let ?n = "numer (snd (mach_timebase_info sys))" and ?d = "denom (snd (mach_timebase_info sys))"
  have lt: "(ucast ?d :: uint64_t) < ucast ?n"
    using assms(5) by (simp add: word_less_nat_alt unat_ucast_32_64)
  then have nz: "(ucast ?n :: uint64_t) \<noteq> 0"
    by auto
  have "(ucast ?d :: uint64_t) div ucast ?n = 0"
    using lt by (rule div_word_less)
  then show ?thesis
    using assms(1-3) nz
    by (simp add: SystemNative_GetTimestampResolution_def assert_fails_def)
qed

theorem GetTimestampResolution_zero_with_success_witness:
  "\<not> HAVE_CLOCK_MONOTONIC mach_build \<and> HAVE_MACH_ABSOLUTE_TIME mach_build \<and>
   fst (mach_timebase_info quiet_os) = KERN_SUCCESS \<and>
   denom (snd (mach_timebase_info quiet_os)) \<noteq> 0 \<and>
   denom (snd (mach_timebase_info quiet_os)) < numer (snd (mach_timebase_info quiet_os)) \<and>
   SystemNative_GetTimestampResolution mach_build quiet_os (Some 7) = Inr (1, 0)"
  using GetTimestampResolution_zero_with_success [of mach_build quiet_os 7]
  by (simp add: mach_build_def quiet_os_def)

text \<open>
  C9, as amended. Two calls of \<^verbatim>\<open>SystemNative_GetTimestampResolution\<close> in the same
  build both return, with the same status and the same stored resolution, as soon as
  the facility that the build selects answers them alike (for \<^verbatim>\<open>clock_gettime\<close> the
  return value, for \<^verbatim>\<open>mach_timebase_info\<close> the return value and the ratio) and, in the
  \<^verbatim>\<open>mach_timebase_info\<close> branch, a successful probe reports a numerator other than
  zero; whatever else differs in the operating system and whatever the output cell held
  before each call.
\<close>

theorem GetTimestampResolution_deterministic:
  assumes clock: "HAVE_CLOCK_MONOTONIC cfg \<Longrightarrow>
             fst (clock_gettime_MONOTONIC sys1) = fst (clock_gettime_MONOTONIC sys2)"
    and mach: "\<not> HAVE_CLOCK_MONOTONIC cfg \<Longrightarrow> HAVE_MACH_ABSOLUTE_TIME cfg \<Longrightarrow>
           mach_timebase_info sys1 = mach_timebase_info sys2"
    and nonzero: "\<not> HAVE_CLOCK_MONOTONIC cfg \<Longrightarrow> HAVE_MACH_ABSOLUTE_TIME cfg \<Longrightarrow>
           fst (mach_timebase_info sys1) = KERN_SUCCESS \<Longrightarrow>
           numer (snd (mach_timebase_info sys1)) \<noteq> 0"
  shows "\<exists>status res.
           SystemNative_GetTimestampResolution cfg sys1 (Some old1) = Inr (status, res) \<and>
           SystemNative_GetTimestampResolution cfg sys2 (Some old2) = Inr (status, res)"
proof (cases "HAVE_CLOCK_MONOTONIC cfg")
  case True
  with clock show ?thesis
    by (simp add: SystemNative_GetTimestampResolution_def assert_fails_def)
next
  case no_clock: False
  show ?thesis
  proof (cases "HAVE_MACH_ABSOLUTE_TIME cfg")
    case True
    with no_clock mach have same: "mach_timebase_info sys2 = mach_timebase_info sys1"
      by simp
    show ?thesis
    proof (cases "fst (mach_timebase_info sys1) = KERN_SUCCESS")
      case success: True
      with no_clock True nonzero
      have "(ucast (numer (snd (mach_timebase_info sys1))) :: uint64_t) \<noteq> 0"
        by (simp add: ucast_32_64_eq_0)
      with no_clock True success same show ?thesis
        by (simp add: SystemNative_GetTimestampResolution_def assert_fails_def)
    next
      case False
      with no_clock True same show ?thesis
        by (simp add: SystemNative_GetTimestampResolution_def assert_fails_def)
    qed
  next
    case False
    with no_clock show ?thesis
      by (simp add: SystemNative_GetTimestampResolution_def assert_fails_def)
  qed
qed

theorem GetTimestampResolution_deterministic_witness:
  "fst (clock_gettime_MONOTONIC quiet_os) =
     fst (clock_gettime_MONOTONIC
       (quiet_os\<lparr>clock_gettime_MONOTONIC := (0, \<lparr>timespec.tv_sec = 99, tv_nsec = 1\<rparr>),
                 mach_absolute_time := 5\<rparr>)) \<and>
   (\<exists>status res.
      SystemNative_GetTimestampResolution clock_monotonic_build quiet_os (Some 7) =
        Inr (status, res) \<and>
      SystemNative_GetTimestampResolution clock_monotonic_build
        (quiet_os\<lparr>clock_gettime_MONOTONIC := (0, \<lparr>timespec.tv_sec = 99, tv_nsec = 1\<rparr>),
                  mach_absolute_time := 5\<rparr>) (Some 8) = Inr (status, res)) \<and>
   mach_timebase_info quiet_os =
     mach_timebase_info
       (quiet_os\<lparr>mach_absolute_time := 5,
                 gettimeofday := (- 1, \<lparr>timeval.tv_sec = 0, tv_usec = 0\<rparr>)\<rparr>) \<and>
   fst (mach_timebase_info quiet_os) = KERN_SUCCESS \<and>
   numer (snd (mach_timebase_info quiet_os)) \<noteq> 0 \<and>
   (\<exists>status res.
      SystemNative_GetTimestampResolution mach_build quiet_os (Some 7) = Inr (status, res) \<and>
      SystemNative_GetTimestampResolution mach_build
        (quiet_os\<lparr>mach_absolute_time := 5,
                  gettimeofday := (- 1, \<lparr>timeval.tv_sec = 0, tv_usec = 0\<rparr>)\<rparr>)
        (Some 8) = Inr (status, res))"
  using GetTimestampResolution_deterministic [of clock_monotonic_build quiet_os
      "quiet_os\<lparr>clock_gettime_MONOTONIC := (0, \<lparr>timespec.tv_sec = 99, tv_nsec = 1\<rparr>),
                mach_absolute_time := 5\<rparr>" 7 8]
    GetTimestampResolution_deterministic [of mach_build quiet_os
      "quiet_os\<lparr>mach_absolute_time := 5,
                gettimeofday := (- 1, \<lparr>timeval.tv_sec = 0, tv_usec = 0\<rparr>)\<rparr>" 7 8]
  by (simp add: clock_monotonic_build_def mach_build_def quiet_os_def)

text \<open>
  C9 as stated fails where the facility answers both calls alike with a successful
  probe and numerator 0: each call divides by zero, so neither stores a resolution nor
  returns a status.
\<close>

theorem GetTimestampResolution_deterministic_zero_numerator:
  "mach_timebase_info
     (quiet_os\<lparr>mach_timebase_info := (KERN_SUCCESS, \<lparr>numer = 0, denom = 3\<rparr>)\<rparr>) =
   mach_timebase_info
     (quiet_os\<lparr>mach_timebase_info := (KERN_SUCCESS, \<lparr>numer = 0, denom = 3\<rparr>),
               mach_absolute_time := 5\<rparr>) \<and>
   SystemNative_GetTimestampResolution mach_build
     (quiet_os\<lparr>mach_timebase_info := (KERN_SUCCESS, \<lparr>numer = 0, denom = 3\<rparr>)\<rparr>) (Some 7) =
     Inl UndefinedBehaviour \<and>
   SystemNative_GetTimestampResolution mach_build
     (quiet_os\<lparr>mach_timebase_info := (KERN_SUCCESS, \<lparr>numer = 0, denom = 3\<rparr>),
               mach_absolute_time := 5\<rparr>) (Some 8) = Inl UndefinedBehaviour"
  by (simp add: SystemNative_GetTimestampResolution_def assert_fails_def mach_build_def
      quiet_os_def)

subsection \<open>Timestamps\<close>

text \<open>
  C7, as amended. In a build with \<^verbatim>\<open>HAVE_CLOCK_MONOTONIC\<close>: when
  \<^verbatim>\<open>clock_gettime(CLOCK_MONOTONIC)\<close> returns 0, \<^verbatim>\<open>SystemNative_GetTimestamp\<close> returns 1
  and stores seconds times \<open>10\<^sup>9\<close> plus nanoseconds, computed in \<^verbatim>\<open>uint64_t\<close> (the
  integer value modulo \<open>2\<^sup>6\<^sup>4\<close>); when the call fails, a build with assertions stops at
  the assertion and returns nothing, and a build without assertions still returns 1.
\<close>

theorem GetTimestamp_clock_monotonic:
  assumes "HAVE_CLOCK_MONOTONIC cfg"
  shows "(fst (clock_gettime_MONOTONIC sys) = 0 \<longrightarrow>
            (\<exists>t. SystemNative_GetTimestamp cfg sys (Some old) = Inr (1, t) \<and>
                 t = scast (timespec.tv_sec (snd (clock_gettime_MONOTONIC sys))) * 10 ^ 9 +
                     scast (tv_nsec (snd (clock_gettime_MONOTONIC sys))) \<and>
                 uint t = (sint (timespec.tv_sec (snd (clock_gettime_MONOTONIC sys))) * 10 ^ 9 +
                           sint (tv_nsec (snd (clock_gettime_MONOTONIC sys)))) mod 2 ^ 64)) \<and>
         (fst (clock_gettime_MONOTONIC sys) \<noteq> 0 \<and> \<not> NDEBUG cfg \<longrightarrow>
            SystemNative_GetTimestamp cfg sys (Some old) = Inl AssertionFailed) \<and>
         (fst (clock_gettime_MONOTONIC sys) \<noteq> 0 \<and> NDEBUG cfg \<longrightarrow>
            (\<exists>t. SystemNative_GetTimestamp cfg sys (Some old) = Inr (1, t)))"
  using assms
    uint_scast_sum [of "timespec.tv_sec (snd (clock_gettime_MONOTONIC sys))" 1000000000
      "tv_nsec (snd (clock_gettime_MONOTONIC sys))"]
  by (simp add: SystemNative_GetTimestamp_def assert_fails_def SecondsToNanoSeconds_def)

theorem GetTimestamp_clock_monotonic_witness:
  "HAVE_CLOCK_MONOTONIC clock_monotonic_build \<and>
   SystemNative_GetTimestamp clock_monotonic_build quiet_os (Some 7) = Inr (1, 12000000345) \<and>
   SystemNative_GetTimestamp clock_monotonic_build
     (quiet_os\<lparr>clock_gettime_MONOTONIC := (- 1, \<lparr>timespec.tv_sec = 0, tv_nsec = 0\<rparr>)\<rparr>)
     (Some 7) = Inl AssertionFailed \<and>
   (\<exists>t. SystemNative_GetTimestamp (clock_monotonic_build\<lparr>NDEBUG := True\<rparr>)
     (quiet_os\<lparr>clock_gettime_MONOTONIC := (- 1, \<lparr>timespec.tv_sec = 0, tv_nsec = 0\<rparr>)\<rparr>)
     (Some 7) = Inr (1, t))"
  using GetTimestamp_clock_monotonic [of clock_monotonic_build quiet_os 7]
    GetTimestamp_clock_monotonic [of clock_monotonic_build
      "quiet_os\<lparr>clock_gettime_MONOTONIC := (- 1, \<lparr>timespec.tv_sec = 0, tv_nsec = 0\<rparr>)\<rparr>" 7]
    GetTimestamp_clock_monotonic [of "clock_monotonic_build\<lparr>NDEBUG := True\<rparr>"
      "quiet_os\<lparr>clock_gettime_MONOTONIC := (- 1, \<lparr>timespec.tv_sec = 0, tv_nsec = 0\<rparr>)\<rparr>" 7]
  by (simp add: clock_monotonic_build_def quiet_os_def)

text \<open>
  C7 as stated fails in a build with assertions when \<^verbatim>\<open>clock_gettime\<close> fails: the
  function stops at \<^verbatim>\<open>assert(result == 0)\<close> instead of returning 1.
\<close>

theorem GetTimestamp_clock_monotonic_assertion:
  "SystemNative_GetTimestamp clock_monotonic_build
     (quiet_os\<lparr>clock_gettime_MONOTONIC := (- 1, \<lparr>timespec.tv_sec = 0, tv_nsec = 0\<rparr>)\<rparr>)
     (Some 7) = Inl AssertionFailed"
  by (simp add: SystemNative_GetTimestamp_def assert_fails_def clock_monotonic_build_def
      quiet_os_def)

text \<open>
  C8. In a build with neither \<^verbatim>\<open>HAVE_CLOCK_MONOTONIC\<close> nor
  \<^verbatim>\<open>HAVE_MACH_ABSOLUTE_TIME\<close>: when \<^verbatim>\<open>gettimeofday\<close> fails,
  \<^verbatim>\<open>SystemNative_GetTimestamp\<close> stores 0 and returns 0; when it succeeds, the function
  returns 1 and stores seconds times \<open>10\<^sup>6\<close> plus microseconds, computed in
  \<^verbatim>\<open>uint64_t\<close> (the integer value modulo \<open>2\<^sup>6\<^sup>4\<close>).
\<close>

theorem GetTimestamp_fallback:
  assumes "\<not> HAVE_CLOCK_MONOTONIC cfg" and "\<not> HAVE_MACH_ABSOLUTE_TIME cfg"
  shows "(fst (gettimeofday sys) \<noteq> 0 \<longrightarrow>
            SystemNative_GetTimestamp cfg sys (Some old) = Inr (0, 0)) \<and>
         (fst (gettimeofday sys) = 0 \<longrightarrow>
            (\<exists>t. SystemNative_GetTimestamp cfg sys (Some old) = Inr (1, t) \<and>
                 t = scast (timeval.tv_sec (snd (gettimeofday sys))) * 10 ^ 6 +
                     scast (tv_usec (snd (gettimeofday sys))) \<and>
                 uint t = (sint (timeval.tv_sec (snd (gettimeofday sys))) * 10 ^ 6 +
                           sint (tv_usec (snd (gettimeofday sys)))) mod 2 ^ 64))"
  using assms
    uint_scast_sum [of "timeval.tv_sec (snd (gettimeofday sys))" 1000000
      "tv_usec (snd (gettimeofday sys))"]
  by (simp add: SystemNative_GetTimestamp_def assert_fails_def SecondsToMicroSeconds_def)

theorem GetTimestamp_fallback_witness:
  "\<not> HAVE_CLOCK_MONOTONIC gettimeofday_build \<and> \<not> HAVE_MACH_ABSOLUTE_TIME gettimeofday_build \<and>
   SystemNative_GetTimestamp gettimeofday_build quiet_os (Some 7) = Inr (1, 12000345) \<and>
   SystemNative_GetTimestamp gettimeofday_build
     (quiet_os\<lparr>gettimeofday := (- 1, \<lparr>timeval.tv_sec = 0, tv_usec = 0\<rparr>)\<rparr>) (Some 7) = Inr (0, 0)"
  using GetTimestamp_fallback [of gettimeofday_build quiet_os 7]
    GetTimestamp_fallback [of gettimeofday_build
      "quiet_os\<lparr>gettimeofday := (- 1, \<lparr>timeval.tv_sec = 0, tv_usec = 0\<rparr>)\<rparr>" 7]
  by (simp add: gettimeofday_build_def quiet_os_def)

text \<open>
  C6. In a build without \<^verbatim>\<open>HAVE_MACH_ABSOLUTE_TIME\<close>, \<^verbatim>\<open>SystemNative_GetAbsoluteTime\<close>
  stores 0 and returns 0 at every call; in a build with it, the function returns 1 and
  stores the value of \<^verbatim>\<open>mach_absolute_time()\<close> as it is.
\<close>

theorem GetAbsoluteTime_cases:
  "(\<not> HAVE_MACH_ABSOLUTE_TIME cfg \<longrightarrow>
      SystemNative_GetAbsoluteTime cfg sys (Some old) = Inr (0, 0)) \<and>
   (HAVE_MACH_ABSOLUTE_TIME cfg \<longrightarrow>
      SystemNative_GetAbsoluteTime cfg sys (Some old) = Inr (1, mach_absolute_time sys))"
  by (simp add: SystemNative_GetAbsoluteTime_def assert_fails_def)

theorem GetAbsoluteTime_cases_witness:
  "\<not> HAVE_MACH_ABSOLUTE_TIME clock_monotonic_build \<and>
   SystemNative_GetAbsoluteTime clock_monotonic_build quiet_os (Some 7) = Inr (0, 0) \<and>
   HAVE_MACH_ABSOLUTE_TIME mach_build \<and>
   SystemNative_GetAbsoluteTime mach_build quiet_os (Some 7) = Inr (1, 1000)"
  using GetAbsoluteTime_cases [of clock_monotonic_build quiet_os 7]
    GetAbsoluteTime_cases [of mach_build quiet_os 7]
  by (simp add: clock_monotonic_build_def mach_build_def quiet_os_def)

subsection \<open>The timebase ratio\<close>

text \<open>
  C2, as amended. \<^verbatim>\<open>SystemNative_GetTimebaseInfo\<close> never returns a status other than 1.
  In a build without \<^verbatim>\<open>HAVE_MACH_TIMEBASE_INFO\<close> it stores numerator 1 and denominator
  1 and returns 1. In a build with it, a successful probe gives the reported ratio and
  1; a failed probe gives the ratio (1, 1) and the status 1 where assertions are
  compiled out, and stops at the assertion, returning nothing, where they are not.
\<close>

theorem GetTimebaseInfo_cases:
  "(\<not> HAVE_MACH_TIMEBASE_INFO cfg \<longrightarrow>
      SystemNative_GetTimebaseInfo cfg sys (Some n0) (Some d0) = Inr (1, 1, 1)) \<and>
   (HAVE_MACH_TIMEBASE_INFO cfg \<and> fst (mach_timebase_info sys) = KERN_SUCCESS \<longrightarrow>
      SystemNative_GetTimebaseInfo cfg sys (Some n0) (Some d0) =
        Inr (1, numer (snd (mach_timebase_info sys)), denom (snd (mach_timebase_info sys)))) \<and>
   (HAVE_MACH_TIMEBASE_INFO cfg \<and> fst (mach_timebase_info sys) \<noteq> KERN_SUCCESS \<and> NDEBUG cfg \<longrightarrow>
      SystemNative_GetTimebaseInfo cfg sys (Some n0) (Some d0) = Inr (1, 1, 1)) \<and>
   (HAVE_MACH_TIMEBASE_INFO cfg \<and> fst (mach_timebase_info sys) \<noteq> KERN_SUCCESS \<and> \<not> NDEBUG cfg \<longrightarrow>
      SystemNative_GetTimebaseInfo cfg sys (Some n0) (Some d0) = Inl AssertionFailed) \<and>
   (\<forall>r n d. SystemNative_GetTimebaseInfo cfg sys (Some n0) (Some d0) = Inr (r, n, d) \<longrightarrow> r = 1)"
  by (simp add: SystemNative_GetTimebaseInfo_def store_ratio_def assert_fails_def)

theorem GetTimebaseInfo_cases_witness:
  "\<not> HAVE_MACH_TIMEBASE_INFO gettimeofday_build \<and>
   SystemNative_GetTimebaseInfo gettimeofday_build quiet_os (Some 7) (Some 8) = Inr (1, 1, 1) \<and>
   HAVE_MACH_TIMEBASE_INFO mach_build \<and>
   SystemNative_GetTimebaseInfo mach_build quiet_os (Some 7) (Some 8) = Inr (1, 125, 3) \<and>
   SystemNative_GetTimebaseInfo (mach_build\<lparr>NDEBUG := True\<rparr>)
     (quiet_os\<lparr>mach_timebase_info := (5, \<lparr>numer = 0, denom = 0\<rparr>)\<rparr>) (Some 7) (Some 8) =
     Inr (1, 1, 1) \<and>
   SystemNative_GetTimebaseInfo mach_build
     (quiet_os\<lparr>mach_timebase_info := (5, \<lparr>numer = 0, denom = 0\<rparr>)\<rparr>) (Some 7) (Some 8) =
     Inl AssertionFailed"
  using GetTimebaseInfo_cases [of gettimeofday_build quiet_os 7 8, THEN conjunct1]
    GetTimebaseInfo_cases [of mach_build quiet_os 7 8, THEN conjunct2, THEN conjunct1]
    GetTimebaseInfo_cases [of "mach_build\<lparr>NDEBUG := True\<rparr>"
      "quiet_os\<lparr>mach_timebase_info := (5, \<lparr>numer = 0, denom = 0\<rparr>)\<rparr>" 7 8,
      THEN conjunct2, THEN conjunct2, THEN conjunct1]
    GetTimebaseInfo_cases [of mach_build
      "quiet_os\<lparr>mach_timebase_info := (5, \<lparr>numer = 0, denom = 0\<rparr>)\<rparr>" 7 8,
      THEN conjunct2, THEN conjunct2, THEN conjunct2, THEN conjunct1]
  by (simp add: gettimeofday_build_def mach_build_def quiet_os_def KERN_SUCCESS_def)

text \<open>
  C2 as stated fails in a build with \<^verbatim>\<open>HAVE_MACH_TIMEBASE_INFO\<close> and assertions when the
  probe fails: the call stops at \<^verbatim>\<open>assert(ret == KERN_SUCCESS)\<close> and does not return 1.
\<close>

theorem GetTimebaseInfo_assertion:
  "SystemNative_GetTimebaseInfo mach_build
     (quiet_os\<lparr>mach_timebase_info := (5, \<lparr>numer = 0, denom = 0\<rparr>)\<rparr>) (Some 7) (Some 8) =
     Inl AssertionFailed"
  by (simp add: SystemNative_GetTimebaseInfo_def assert_fails_def mach_build_def quiet_os_def
      KERN_SUCCESS_def)

end
